theory Spec2Isabelle
  imports Complex_Main
begin

section \<open>Conventions of the embedding\<close>

text \<open>
  The pricer is Python on top of numpy and scipy. Its floating-point numbers are
  modelled by \<^typ>\<open>real\<close>: finite values, exact arithmetic. Where numpy would go on with
  an infinity or a NaN (a division by a zero step, the logarithm of a non-positive
  number, the step of a one-point \<open>linspace\<close>) the model stops with \<open>NonFinite\<close>, which
  is a boundary of the model and not a Python exception. Every other constructor of
  \<open>error\<close> is an exception that the interpreter raises.
\<close>

datatype error =
    InvalidSpot            \<comment> \<open>\<open>Exception("validateSpot : Spot cannot be negative")\<close>\<close>
  | InvalidVolatility      \<comment> \<open>any of the \<open>Exception("validateVol : ...")\<close>\<close>
  | MissingNotional        \<comment> \<open>\<open>Exception('Non Linear PDE: Expecting a non-null notional')\<close>\<close>
  | TypeError
  | AttributeError
  | IndexError
  | ValueError
  | UnboundLocalError
  | ZeroDivisionError
  | NonFinite

text \<open>
  A scalar is either a built-in Python \<open>float\<close> or a \<open>numpy.float64\<close>. The two carry the
  same number, but only the second has the attributes of an array (\<open>.shape\<close>).
  Arithmetic between the two yields a \<open>numpy.float64\<close>.
\<close>

datatype scalar = PyFloat real | NpFloat real

fun val :: "scalar \<Rightarrow> real" where
  "val (PyFloat x) = x"
| "val (NpFloat x) = x"

fun is_np :: "scalar \<Rightarrow> bool" where
  "is_np (PyFloat x) = False"
| "is_np (NpFloat x) = True"

definition sc_binop :: "(real \<Rightarrow> real \<Rightarrow> real) \<Rightarrow> scalar \<Rightarrow> scalar \<Rightarrow> scalar" where
  "sc_binop f a b =
     (if is_np a \<or> is_np b then NpFloat (f (val a) (val b)) else PyFloat (f (val a) (val b)))"

section \<open>Underlying.py\<close>

text \<open>
  What a caller may hand to \<open>setVol\<close>: a \<open>float\<close>, a tuple, or a value of any other
  type (\<open>VolOther\<close>: an \<open>int\<close>, a list, a \<open>numpy.float64\<close>, \<open>None\<close>, ...).
\<close>

datatype volatility = VolFloat real | VolTuple "volatility list" | VolOther

fun is_float :: "volatility \<Rightarrow> bool" where
  "is_float (VolFloat v) = True"
| "is_float v = False"

fun float_of :: "volatility \<Rightarrow> real" where
  "float_of (VolFloat v) = v"
| "float_of v = 0"

fun is_tuple :: "volatility \<Rightarrow> bool" where
  "is_tuple (VolTuple vs) = True"
| "is_tuple v = False"

fun validateVol :: "volatility \<Rightarrow> error + unit" where
  "validateVol (VolFloat v) = (if v \<le> 0 then Inl InvalidVolatility else Inr ())"
| "validateVol (VolTuple vs) =
     (if length vs \<noteq> 2 \<or> \<not> is_float (vs ! 0) \<or> \<not> is_float (vs ! 1)
      then Inl InvalidVolatility
      else if \<not> (0 < float_of (vs ! 0) \<and> float_of (vs ! 0) \<le> float_of (vs ! 1))
      then Inl InvalidVolatility
      else Inr ())"
| "validateVol VolOther = Inl InvalidVolatility"

definition validateSpot :: "scalar \<Rightarrow> error + unit" where
  "validateSpot spot = (if val spot \<le> 0 then Inl InvalidSpot else Inr ())"

record underlying =
  spot :: scalar
  reference_spot :: scalar
  vol :: volatility
  reference_vol :: real
  is_non_linear :: bool

text \<open>
  A setter works on the object in place. The model returns the object as the call
  leaves it together with the outcome, so that the state after a raise can be read.
\<close>

definition setSpot :: "scalar \<Rightarrow> underlying \<Rightarrow> underlying \<times> (error + unit)" where
  "setSpot s u =
     (case validateSpot s of
        Inl e \<Rightarrow> (u, Inl e)
      | Inr _ \<Rightarrow> (u\<lparr>spot := s\<rparr>, Inr ()))"

definition setVol :: "volatility \<Rightarrow> underlying \<Rightarrow> underlying \<times> (error + unit)" where
  "setVol v u =
     (case validateVol v of
        Inl e \<Rightarrow> (u, Inl e)
      | Inr _ \<Rightarrow> (u\<lparr>vol := v, is_non_linear := is_tuple v\<rparr>, Inr ()))"

definition setReferenceVol :: "volatility \<Rightarrow> underlying \<Rightarrow> underlying \<times> (error + unit)" where
  "setReferenceVol v u =
     (case validateVol v of
        Inl e \<Rightarrow> (u, Inl e)
      | Inr _ \<Rightarrow>
          (case v of
             VolTuple vs \<Rightarrow>
               (u\<lparr>reference_vol := 0.5 * (float_of (vs ! 0) + float_of (vs ! 1))\<rparr>, Inr ())
           | _ \<Rightarrow> (u\<lparr>reference_vol := float_of v\<rparr>, Inr ())))"

definition setReferenceSpot :: "scalar \<Rightarrow> underlying \<Rightarrow> underlying \<times> (error + unit)" where
  "setReferenceSpot s u =
     (case validateSpot s of
        Inl e \<Rightarrow> (u, Inl e)
      | Inr _ \<Rightarrow> (u\<lparr>reference_spot := s\<rparr>, Inr ()))"

definition getSpot :: "underlying \<Rightarrow> scalar" where
  "getSpot u = spot u"

definition getVol :: "underlying \<Rightarrow> volatility" where
  "getVol u = vol u"

definition getReferenceSpot :: "underlying \<Rightarrow> scalar" where
  "getReferenceSpot u = reference_spot u"

definition getReferenceVol :: "underlying \<Rightarrow> real" where
  "getReferenceVol u = reference_vol u"

definition isNonLinear :: "underlying \<Rightarrow> bool" where
  "isNonLinear u = is_non_linear u"

text \<open>
  The constructor calls the four setters in turn on the new object. The attributes
  that do not exist yet hold placeholders here; the object is handed out only when
  all four setters have returned.
\<close>

definition Underlying_init :: "scalar \<Rightarrow> volatility \<Rightarrow> error + underlying" where
  "Underlying_init s v =
     (let u0 = \<lparr>spot = PyFloat 0, reference_spot = PyFloat 0, vol = VolOther,
                reference_vol = 0, is_non_linear = False\<rparr>
      in case setSpot s u0 of
           (u1, Inl e) \<Rightarrow> Inl e
         | (u1, Inr _) \<Rightarrow>
             (case setReferenceSpot s u1 of
                (u2, Inl e) \<Rightarrow> Inl e
              | (u2, Inr _) \<Rightarrow>
                  (case setVol v u2 of
                     (u3, Inl e) \<Rightarrow> Inl e
                   | (u3, Inr _) \<Rightarrow>
                       (case setReferenceVol v u3 of
                          (u4, Inl e) \<Rightarrow> Inl e
                        | (u4, Inr _) \<Rightarrow> Inr u4))))"

section \<open>Python and numpy values\<close>

text \<open>
  Exceptions propagate: the first failing step decides the outcome.
\<close>

definition ebind :: "error + 'a \<Rightarrow> ('a \<Rightarrow> error + 'b) \<Rightarrow> error + 'b" where
  "ebind m f = (case m of Inl e \<Rightarrow> Inl e | Inr x \<Rightarrow> f x)"

text \<open>
  Python indexing of a sequence: a negative index counts from the end, an index out
  of range raises IndexError.
\<close>

definition py_index :: "'a list \<Rightarrow> int \<Rightarrow> nat option" where
  "py_index xs i =
     (if 0 \<le> i \<and> i < int (length xs) then Some (nat i)
      else if i < 0 \<and> 0 \<le> int (length xs) + i then Some (nat (int (length xs) + i))
      else None)"

definition py_get :: "'a list \<Rightarrow> int \<Rightarrow> error + 'a" where
  "py_get xs i = (case py_index xs i of None \<Rightarrow> Inl IndexError | Some k \<Rightarrow> Inr (xs ! k))"

definition py_set :: "'a list \<Rightarrow> int \<Rightarrow> 'a \<Rightarrow> error + 'a list" where
  "py_set xs i v = (case py_index xs i of None \<Rightarrow> Inl IndexError | Some k \<Rightarrow> Inr (xs[k := v]))"

text \<open>
  The argument \<open>S\<close> of a payoff is a scalar on the fast path of the solver and the
  spot mesh, a one-dimensional array, on the grid. Arithmetic broadcasts a scalar
  over an array; two arrays are combined element by element (in the source they
  always derive from the same mesh and have its length).
\<close>

datatype nd = Scalar scalar | Array "real list"

fun nd_binop :: "(real \<Rightarrow> real \<Rightarrow> real) \<Rightarrow> nd \<Rightarrow> nd \<Rightarrow> nd" where
  "nd_binop f (Scalar a) (Scalar b) = Scalar (sc_binop f a b)"
| "nd_binop f (Scalar a) (Array ys) = Array (map (\<lambda>y. f (val a) y) ys)"
| "nd_binop f (Array xs) (Scalar b) = Array (map (\<lambda>x. f x (val b)) xs)"
| "nd_binop f (Array xs) (Array ys) = Array (map2 f xs ys)"

definition py :: "real \<Rightarrow> nd" where
  "py c = Scalar (PyFloat c)"

text \<open>\<open>np.maximum\<close> is a ufunc: on scalars it returns a \<open>numpy.float64\<close>.\<close>

fun np_maximum :: "nd \<Rightarrow> nd \<Rightarrow> nd" where
  "np_maximum (Scalar a) (Scalar b) = Scalar (NpFloat (max (val a) (val b)))"
| "np_maximum a b = nd_binop max a b"

text \<open>
  \<open>np.zeros(perf.shape)\<close>: a built-in \<open>float\<close> has no attribute \<open>shape\<close>; the shape of
  a \<open>numpy.float64\<close> is \<open>()\<close> and the result a zero-dimensional array, which behaves
  as a numpy scalar.
\<close>

fun zeros_of_shape :: "nd \<Rightarrow> error + nd" where
  "zeros_of_shape (Scalar (PyFloat p)) = Inl AttributeError"
| "zeros_of_shape (Scalar (NpFloat p)) = Inr (Scalar (NpFloat 0))"
| "zeros_of_shape (Array ps) = Inr (Array (replicate (length ps) 0))"

text \<open>\<open>ind[perf >= 0.0] = 1.0\<close>, for \<open>ind\<close> of the shape of \<open>perf\<close>.\<close>

fun assign_where_nonneg :: "nd \<Rightarrow> nd \<Rightarrow> nd" where
  "assign_where_nonneg (Scalar i) (Scalar p) = Scalar (if 0 \<le> val p then NpFloat 1 else i)"
| "assign_where_nonneg (Array is) (Array ps) =
     Array (map2 (\<lambda>i p. if 0 \<le> p then 1 else i) is ps)"
| "assign_where_nonneg ind perf = ind"

text \<open>\<open>float(premium)\<close> of a scalar result.\<close>

fun to_float :: "nd \<Rightarrow> error + scalar" where
  "to_float (Scalar a) = Inr (PyFloat (val a))"
| "to_float (Array xs) = (case xs of [x] \<Rightarrow> Inr (PyFloat x) | _ \<Rightarrow> Inl TypeError)"

section \<open>Payoff.py\<close>

definition barrier :: "nd \<Rightarrow> real \<Rightarrow> bool \<Rightarrow> bool \<Rightarrow> error + nd" where
  "barrier S b is_down is_out =
     (let perf = nd_binop (*) (nd_binop (-) S (py b)) (py (if is_down then - 1 else 1))
      in ebind (zeros_of_shape perf) (\<lambda>zeros.
           let ind = assign_where_nonneg zeros perf
           in Inr (if is_out then nd_binop (-) (py 1) ind else ind)))"

text \<open>
  The payoffs are built from a configuration mapping; their parameters are the
  \<open>float\<close>s found there, and \<open>Notional\<close> is optional (\<open>None\<close> when absent).
\<close>

datatype payoff =
    AmericanCall (t_expiry: real) (notional: "real option") (strike: real)
  | UpAndOutCallSpread (t_expiry: real) (notional: "real option") (strike: real)
      (upper_strike: real) (ko_barrier: real)
  | DownAndOutPut (t_expiry: real) (notional: "real option") (strike: real)
      (ko_barrier: real) (rebate: real)
  | DoubleNoTouch (t_expiry: real) (notional: "real option")
      (ko_barrier_down: real) (ko_barrier_up: real)

definition getExpiry :: "payoff \<Rightarrow> real" where
  "getExpiry p = t_expiry p"

definition getNotional :: "payoff \<Rightarrow> real option" where
  "getNotional p = notional p"

text \<open>A barrier level, or \<open>-np.inf\<close>, \<open>+np.inf\<close> where there is none.\<close>

datatype level = MinusInf | Finite real | PlusInf

fun level_less :: "level \<Rightarrow> level \<Rightarrow> bool" where
  "level_less MinusInf MinusInf = False"
| "level_less MinusInf b = True"
| "level_less (Finite a) (Finite b) = (a < b)"
| "level_less (Finite a) PlusInf = True"
| "level_less a b = False"

fun getContinousBarriers :: "payoff \<Rightarrow> level \<times> level" where
  "getContinousBarriers (AmericanCall ex no k) = (MinusInf, PlusInf)"
| "getContinousBarriers (UpAndOutCallSpread ex no k uk b) = (MinusInf, Finite b)"
| "getContinousBarriers (DownAndOutPut ex no k b rb) = (Finite b, PlusInf)"
| "getContinousBarriers (DoubleNoTouch ex no bd bu) = (Finite bd, Finite bu)"

fun getPayoff :: "payoff \<Rightarrow> nd \<Rightarrow> error + nd" where
  "getPayoff (AmericanCall ex no k) S = Inr (np_maximum (nd_binop (-) S (py k)) (py 0))"
| "getPayoff (UpAndOutCallSpread ex no k uk b) S =
     (let call = np_maximum (nd_binop (-) S (py k)) (py 0);
          upper_call = np_maximum (nd_binop (-) S (py uk)) (py 0)
      in ebind (barrier S b False True) (\<lambda>ko_indicator.
           Inr (nd_binop (*) (nd_binop (-) call upper_call) ko_indicator)))"
| "getPayoff (DownAndOutPut ex no k b rb) S =
     (let put = np_maximum (nd_binop (-) (py k) S) (py 0)
      in ebind (barrier S b True True) (\<lambda>ko_indicator.
           Inr (nd_binop (+) (nd_binop (*) put ko_indicator)
                  (nd_binop (*) (py rb) (nd_binop (-) (py 1) ko_indicator)))))"
| "getPayoff (DoubleNoTouch ex no bd bu) S =
     ebind (barrier S bd True True) (\<lambda>ko_indicator_down.
     ebind (barrier S bu False True) (\<lambda>ko_indicator_up.
       Inr (nd_binop (*) ko_indicator_down ko_indicator_up)))"

text \<open>
  \<open>getConstraint(S, t, solution)\<close> on the grid. The barrier payoffs write into
  \<open>solution\<close> and return it; the American call returns a new array.
\<close>

fun getConstraint :: "payoff \<Rightarrow> real list \<Rightarrow> real \<Rightarrow> real list \<Rightarrow> error + real list" where
  "getConstraint (AmericanCall ex no k) S t solution =
     (let exercise_value = map (\<lambda>s. max (s - k) 0) S
      in Inr (map2 max exercise_value solution))"
| "getConstraint (UpAndOutCallSpread ex no k uk b) S t solution =
     ebind (py_get S (- 1)) (\<lambda>s_last.
       if b \<le> s_last then py_set solution (- 1) 0 else Inr solution)"
| "getConstraint (DownAndOutPut ex no k b rb) S t solution =
     ebind (py_get S 0) (\<lambda>s_first.
       if s_first \<le> b then py_set solution 0 rb else Inr solution)"
| "getConstraint (DoubleNoTouch ex no bd bu) S t solution =
     ebind (py_get S 0) (\<lambda>s_first.
     ebind (if s_first \<le> bd then py_set solution 0 0 else Inr solution) (\<lambda>solution1.
     ebind (py_get S (- 1)) (\<lambda>s_last.
       if bu \<le> s_last then py_set solution1 (- 1) 0 else Inr solution1)))"

text \<open>
  Every payoff declares \<open>getDirichletBoundaries(self, S, t)\<close>: the call binds exactly
  two positional arguments after \<open>self\<close>, and any other number of them is a TypeError
  raised by the call itself. The arguments are passed as a list to keep that visible.
\<close>

datatype pyarg = ArgArray "real list" | ArgFloat real

fun arg_last :: "pyarg \<Rightarrow> error + real" where
  "arg_last (ArgArray xs) = py_get xs (- 1)"
| "arg_last (ArgFloat x) = Inl TypeError"

fun getDirichletBoundaries_body :: "payoff \<Rightarrow> pyarg \<Rightarrow> pyarg \<Rightarrow> error + real \<times> real" where
  "getDirichletBoundaries_body (AmericanCall ex no k) S t =
     ebind (arg_last S) (\<lambda>s_last. Inr (0, max (s_last - k) 0))"
| "getDirichletBoundaries_body (UpAndOutCallSpread ex no k uk b) S t = Inr (0, 0)"
| "getDirichletBoundaries_body (DownAndOutPut ex no k b rb) S t = Inr (rb, 0)"
| "getDirichletBoundaries_body (DoubleNoTouch ex no bd bu) S t = Inr (0, 0)"

definition getDirichletBoundaries :: "payoff \<Rightarrow> pyarg list \<Rightarrow> error + real \<times> real" where
  "getDirichletBoundaries p args =
     (case args of
        [S, t] \<Rightarrow> getDirichletBoundaries_body p S t
      | _ \<Rightarrow> Inl TypeError)"

section \<open>NonLinearPDESolver.py\<close>

text \<open>
  The library functions the engine calls are parameters of the model, and nothing is
  assumed of them: numpy's floating-point \<open>log\<close>, \<open>exp\<close> and \<open>sqrt\<close> (on arguments
  where they are finite), scipy's \<open>solve_banded\<close> for the three bands and a right-hand
  side, and scipy's \<open>CubicSpline\<close>, whose constructor may raise and otherwise gives the
  interpolating function.
\<close>

record numerics =
  np_log :: "real \<Rightarrow> real"
  np_exp :: "real \<Rightarrow> real"
  np_sqrt :: "real \<Rightarrow> real"
  solve_banded :: "real list list \<Rightarrow> real list \<Rightarrow> error + real list"
  CubicSpline :: "real list \<Rightarrow> real list \<Rightarrow> error + (real \<Rightarrow> real)"

text \<open>The engine object. Its Underlying is a separate, shared object.\<close>

record engine =
  payoff :: payoff
  t_mesh :: "real list"
  dT :: real
  nb_t_steps :: nat
  x_mesh :: "real list"
  dX :: real
  nb_x_steps :: nat
  s_mesh :: "real list"
  nb_non_linear_iter :: int
  nb_non_linear_tol :: real

text \<open>
  \<open>np.linspace(start, stop, num, endpoint=True, retstep=True)\<close>: the points
  \<open>start + k * step\<close> with the last one set to \<open>stop\<close>, and the step. With fewer than
  two points numpy returns the step NaN.
\<close>

definition linspace :: "real \<Rightarrow> real \<Rightarrow> nat \<Rightarrow> error + real list \<times> real" where
  "linspace start stop num =
     (if num < 2 then Inl NonFinite
      else let step = (stop - start) / real (num - 1)
           in Inr (map (\<lambda>k. start + real k * step) [0..<num - 1] @ [stop], step))"

text \<open>
  \<open>np.log\<close> of a barrier level, where \<open>np.isfinite\<close> holds of the level and the
  logarithm is finite; \<open>None\<close> otherwise (no barrier, or a level that is not positive,
  whose logarithm is \<open>-inf\<close> or NaN).
\<close>

definition log_level :: "numerics \<Rightarrow> level \<Rightarrow> real option" where
  "log_level N l =
     (case l of Finite b \<Rightarrow> (if 0 < b then Some (np_log N b) else None) | _ \<Rightarrow> None)"

definition level_value :: "level \<Rightarrow> real" where
  "level_value l = (case l of Finite b \<Rightarrow> b | _ \<Rightarrow> 0)"

text \<open>
  The bounds of the log-spot range before the barriers are looked at, for
  \<open>nb_std_down\<close> and for \<open>nb_std_up\<close>.
\<close>

definition log_spot_bound :: "numerics \<Rightarrow> payoff \<Rightarrow> underlying \<Rightarrow> real \<Rightarrow> real" where
  "log_spot_bound N p u nb_std =
     np_log N (val (getReferenceSpot u))
       + nb_std * getReferenceVol u * np_sqrt N (getExpiry p)"

text \<open>The two bounds after the special treatment of the continuous barriers.\<close>

definition narrowed_x_min :: "numerics \<Rightarrow> payoff \<Rightarrow> underlying \<Rightarrow> real \<Rightarrow> real" where
  "narrowed_x_min N p u nb_std_down =
     (let x_min = log_spot_bound N p u nb_std_down
      in case log_level N (fst (getContinousBarriers p)) of
           Some lb \<Rightarrow> if x_min \<le> lb then lb else x_min
         | None \<Rightarrow> x_min)"

definition narrowed_x_max :: "numerics \<Rightarrow> payoff \<Rightarrow> underlying \<Rightarrow> real \<Rightarrow> real" where
  "narrowed_x_max N p u nb_std_up =
     (let x_max = log_spot_bound N p u nb_std_up
      in case log_level N (snd (getContinousBarriers p)) of
           Some lb \<Rightarrow> if lb \<le> x_max then lb else x_max
         | None \<Rightarrow> x_max)"

text \<open>
  The spot mesh: the exponential of the x-mesh, with the first and the last node
  overwritten by the barrier when its logarithm is the bound of the mesh.
\<close>

definition spot_mesh ::
  "numerics \<Rightarrow> payoff \<Rightarrow> real \<Rightarrow> real \<Rightarrow> real list \<Rightarrow> error + real list" where
  "spot_mesh N p x_min x_max xm =
     (let down_barrier = fst (getContinousBarriers p);
          up_barrier = snd (getContinousBarriers p)
      in ebind (if log_level N down_barrier = Some x_min
                then py_set (map (np_exp N) xm) 0 (level_value down_barrier)
                else Inr (map (np_exp N) xm)) (\<lambda>sm1.
           if log_level N up_barrier = Some x_max
           then py_set sm1 (- 1) (level_value up_barrier)
           else Inr sm1))"

text \<open>
  The constructor of the engine. The model stops with \<open>NonFinite\<close> where numpy would
  build the meshes from an infinity or a NaN: a reference spot that is not positive,
  a negative expiry, an upper barrier at zero (whose logarithm \<open>-inf\<close> passes the
  test and becomes \<open>x_max\<close>), fewer than two points in a mesh.
\<close>

definition NonLinearPDESolver_init ::
  "numerics \<Rightarrow> payoff \<Rightarrow> underlying \<Rightarrow> nat \<Rightarrow> nat \<Rightarrow> real \<Rightarrow> real \<Rightarrow> int \<Rightarrow> real
     \<Rightarrow> error + engine" where
  "NonLinearPDESolver_init N p u nb_t nb_x nb_std_down nb_std_up nl_iter nl_tol =
     ebind (linspace (getExpiry p) 0 nb_t) (\<lambda>time_mesh.
       if val (getReferenceSpot u) \<le> 0 \<or> getExpiry p < 0
            \<or> snd (getContinousBarriers p) = Finite 0
       then Inl NonFinite
       else
         let x_min = narrowed_x_min N p u nb_std_down;
             x_max = narrowed_x_max N p u nb_std_up
         in ebind (linspace x_min x_max nb_x) (\<lambda>log_mesh.
            ebind (spot_mesh N p x_min x_max (fst log_mesh)) (\<lambda>sm.
              Inr \<lparr>payoff = p, t_mesh = fst time_mesh, dT = snd time_mesh,
                   nb_t_steps = nb_t, x_mesh = fst log_mesh, dX = snd log_mesh,
                   nb_x_steps = nb_x, s_mesh = sm,
                   nb_non_linear_iter = nl_iter, nb_non_linear_tol = nl_tol\<rparr>)))"

text \<open>
  The three rows of \<open>bandedMatrix\<close> as \<open>solveOneStep\<close> fills them from the local
  volatilities (one per node): the upper diagonal, the diagonal, the lower diagonal.
  The two corners that the source never assigns keep the zero of \<open>np.zeros\<close>.
\<close>

definition firstOrder :: "engine \<Rightarrow> real" where
  "firstOrder e = - 0.5 * dT e / dX e"

definition secondOrder :: "engine \<Rightarrow> real" where
  "secondOrder e = - dT e / (dX e * dX e)"

definition bandedMatrix :: "engine \<Rightarrow> real list \<Rightarrow> real list list" where
  "bandedMatrix e vols =
     (let halfVar = map (\<lambda>v. 0.5 * v * v) vols;
          n = nb_x_steps e
      in [map (\<lambda>j. if j = 0 then 0
                    else halfVar ! (j - 1) * (firstOrder e - secondOrder e)) [0..<n],
          map (\<lambda>j. 1 + 2 * halfVar ! j * secondOrder e) [0..<n],
          map (\<lambda>j. if j + 1 = n then 0
                    else halfVar ! (j + 1) * (- firstOrder e - secondOrder e)) [0..<n]])"

text \<open>
  \<open>solveOneStep(vol, solution_before)\<close> at the loop index \<open>i\<close> of the enclosing
  function. Both callers pass one volatility per node; another length (which they
  never produce) is reported as the shape error of the assignment. The banded solve
  writes its result into \<open>solution_after\<close> (\<open>overwrite_b=True\<close>).
\<close>

definition solveOneStep ::
  "numerics \<Rightarrow> engine \<Rightarrow> nat \<Rightarrow> real list \<Rightarrow> real list \<Rightarrow> error + real list" where
  "solveOneStep N e i vols solution_before =
     (if length vols \<noteq> nb_x_steps e then Inl ValueError
      else
        let bm = bandedMatrix e vols;
            solution_after = solution_before
        in ebind (py_get (t_mesh e) (int i + 1)) (\<lambda>t.
           ebind (getDirichletBoundaries (payoff e)
                    [ArgArray (s_mesh e), ArgFloat t, ArgArray solution_after]) (\<lambda>boundaries.
           ebind (py_get (bm ! 2) 0) (\<lambda>lower0.
           ebind (py_get solution_after 0) (\<lambda>first.
           ebind (py_set solution_after 0 (first - lower0 * fst boundaries)) (\<lambda>solution_after1.
           ebind (py_get (bm ! 0) (- 1)) (\<lambda>upper_last.
           ebind (py_get solution_after1 (- 1)) (\<lambda>last_value.
           ebind (py_set solution_after1 (- 1) (last_value - upper_last * snd boundaries))
             (\<lambda>solution_after2.
           ebind (solve_banded N bm solution_after2) (\<lambda>solution_after3.
             getConstraint (payoff e) (s_mesh e) t solution_after3))))))))))"

text \<open>
  The discrete second difference of the previous iterate, zero at the two edge nodes,
  divided by \<open>dX * dX\<close>.
\<close>

definition gamma_of :: "engine \<Rightarrow> real list \<Rightarrow> error + real list" where
  "gamma_of e prev =
     (if 3 \<le> nb_x_steps e \<and> length prev < nb_x_steps e then Inl IndexError
      else Inr (map (\<lambda>j. (if 1 \<le> j \<and> j + 1 < nb_x_steps e
                           then (1 + 0.5 * dX e) * prev ! (j - 1) - 2 * prev ! j
                                  + (1 - 0.5 * dX e) * prev ! (j + 1)
                           else 0) / (dX e * dX e)) [0..<nb_x_steps e]))"

text \<open>
  The volatility chosen at each node from the sign of \<open>-gamma * notional\<close>, then the
  two edge nodes overwritten with their neighbours' values.
\<close>

definition optimizedVol_of :: "real \<Rightarrow> real \<Rightarrow> real option \<Rightarrow> real list \<Rightarrow> error + real list" where
  "optimizedVol_of bid ask notional_opt gamma =
     (case notional_opt of
        None \<Rightarrow> Inl TypeError
      | Some nt \<Rightarrow>
          let optimizedVol = map (\<lambda>g. bid + (ask - bid) * 0.5 * (1 + sgn (- g * nt))) gamma
          in ebind (py_get optimizedVol 1) (\<lambda>v1.
             ebind (py_set optimizedVol 0 v1) (\<lambda>optimizedVol1.
             ebind (py_get optimizedVol1 (- 2)) (\<lambda>v2.
               py_set optimizedVol1 (- 1) v2))))"

definition l2_norm :: "real list \<Rightarrow> real" where
  "l2_norm xs = sqrt (sum_list (map (\<lambda>x. x * x) xs))"

text \<open>
  The \<open>while nlIter < nb_non_linear_iter\<close> loop. The first numeric argument counts the
  iterations that the cap still allows, the second is \<open>nlIter\<close>. \<open>step\<close> is
  \<open>solveOneStep\<close> on the solution of the previous time step. The loop yields the
  variable \<open>solution_curr_iter\<close>, which is unbound (\<open>None\<close>) until the body has run
  once, and the final \<open>nlIter\<close>.
\<close>

fun nonLinearLoop ::
  "(real list \<Rightarrow> error + real list) \<Rightarrow> engine \<Rightarrow> real \<Rightarrow> real \<Rightarrow> real option \<Rightarrow> nat \<Rightarrow> nat
     \<Rightarrow> real list \<Rightarrow> real list option \<Rightarrow> error + real list option \<times> nat" where
  "nonLinearLoop step e bid ask nt 0 nlIter solution_prev_iter solution_curr_iter =
     Inr (solution_curr_iter, nlIter)"
| "nonLinearLoop step e bid ask nt (Suc k) nlIter solution_prev_iter solution_curr_iter =
     ebind (gamma_of e solution_prev_iter) (\<lambda>gamma.
     ebind (optimizedVol_of bid ask nt gamma) (\<lambda>optimizedVol.
     ebind (step optimizedVol) (\<lambda>iterate.
       if l2_norm (map2 (-) iterate solution_prev_iter) / real (nb_x_steps e)
            \<le> nb_non_linear_tol e
       then Inr (Some iterate, nlIter + 1)
       else nonLinearLoop step e bid ask nt k (nlIter + 1) iterate (Some iterate))))"

text \<open>
  The non-linear branch of a time step: the initial guess with the mid volatility,
  the loop, and \<open>solution = solution_curr_iter\<close>, which reads a variable that is
  unbound (\<open>None\<close>) when the body of the loop has never run.
\<close>

definition nonLinearStep ::
  "(real list \<Rightarrow> error + real list) \<Rightarrow> engine \<Rightarrow> real \<Rightarrow> real \<Rightarrow> real option
     \<Rightarrow> real list option \<Rightarrow> error + real list" where
  "nonLinearStep step e bid ask nt solution_curr_iter =
     ebind (step (replicate (nb_x_steps e) (0.5 * (bid + ask)))) (\<lambda>solution_prev_iter.
     ebind (nonLinearLoop step e bid ask nt (nat (nb_non_linear_iter e)) 0
              solution_prev_iter solution_curr_iter) (\<lambda>r.
       case fst r of
         None \<Rightarrow> Inl UnboundLocalError
       | Some iterate \<Rightarrow> Inr iterate))"

text \<open>
  One pass of the loop on time steps. The state is \<open>solution\<close> and the variable
  \<open>solution_curr_iter\<close>, which survives from one time step to the next. A volatility
  that does not fit the non-linear flag (no setter leaves the object so) is a
  TypeError.
\<close>

definition timeStep ::
  "numerics \<Rightarrow> engine \<Rightarrow> underlying \<Rightarrow> nat \<Rightarrow> real list \<times> real list option
     \<Rightarrow> error + real list \<times> real list option" where
  "timeStep N e u i st =
     (let solution = fst st; solution_curr_iter = snd st
      in if isNonLinear u
         then (case getVol u of
                 VolTuple [VolFloat bid, VolFloat ask] \<Rightarrow>
                   ebind (nonLinearStep (\<lambda>vols. solveOneStep N e i vols solution) e bid ask
                            (getNotional (payoff e)) solution_curr_iter)
                     (\<lambda>iterate. Inr (iterate, Some iterate))
               | _ \<Rightarrow> Inl TypeError)
         else (case getVol u of
                 VolFloat v \<Rightarrow>
                   ebind (solveOneStep N e i (replicate (nb_x_steps e) v) solution)
                     (\<lambda>solution1. Inr (solution1, solution_curr_iter))
               | _ \<Rightarrow> Inl TypeError))"

fun timeLoop ::
  "numerics \<Rightarrow> engine \<Rightarrow> underlying \<Rightarrow> nat list \<Rightarrow> real list \<times> real list option
     \<Rightarrow> error + real list \<times> real list option" where
  "timeLoop N e u [] st = Inr st"
| "timeLoop N e u (i # is) st = ebind (timeStep N e u i st) (timeLoop N e u is)"

text \<open>The guard of the fast path of \<open>solvePDE\<close>.\<close>

definition fast_path :: "engine \<Rightarrow> underlying \<Rightarrow> bool" where
  "fast_path e u =
     (let continuous_barriers = getContinousBarriers (payoff e)
      in 0 \<le> dT e \<or>
         \<not> (level_less (fst continuous_barriers) (Finite (val (getSpot u))) \<and>
            level_less (Finite (val (getSpot u))) (snd continuous_barriers)))"

fun as_array :: "nd \<Rightarrow> error + real list" where
  "as_array (Array xs) = Inr xs"
| "as_array (Scalar a) = Inl TypeError"

text \<open>
  \<open>solvePDE\<close>. The fast path returns a built-in \<open>float\<close>, the grid the value of the
  spline, a numpy scalar.
\<close>

definition solvePDE :: "numerics \<Rightarrow> engine \<Rightarrow> underlying \<Rightarrow> error + scalar" where
  "solvePDE N e u =
     (let notional_opt = getNotional (payoff e)
      in if fast_path e u
         then ebind (getPayoff (payoff e) (Scalar (getSpot u))) to_float
         else if isNonLinear u \<and> (notional_opt = None \<or> notional_opt = Some 0)
         then Inl MissingNotional
         else if dX e = 0 then Inl NonFinite
         else
           ebind (getPayoff (payoff e) (Array (s_mesh e))) (\<lambda>terminal.
           ebind (as_array terminal) (\<lambda>solution0.
           ebind (py_get (t_mesh e) 0) (\<lambda>t0.
           ebind (getConstraint (payoff e) (s_mesh e) t0 solution0) (\<lambda>solution1.
           ebind (timeLoop N e u [0..<nb_t_steps e - 1] (solution1, None)) (\<lambda>st.
           ebind (CubicSpline N (x_mesh e) (fst st)) (\<lambda>cubic_spline.
             if val (getSpot u) \<le> 0 then Inl NonFinite
             else Inr (NpFloat (cubic_spline (np_log N (val (getSpot u))))))))))))"

text \<open>
  A call of \<open>solvePDE\<close> as a step on the engine object. The source assigns no
  attribute of \<open>self\<close> there, and the arrays it writes into (\<open>bandedMatrix\<close>,
  \<open>solution_after\<close>, \<open>solution\<close>, \<open>gamma\<close>, \<open>optimizedVol\<close>) are arrays it has
  created itself: the payoffs build their values from \<open>S\<close> by arithmetic, which
  allocates, and \<open>solveOneStep\<close> works on a copy. The object comes back as it was.
\<close>

definition solvePDE_call :: "numerics \<Rightarrow> underlying \<Rightarrow> engine \<Rightarrow> engine \<times> (error + scalar)" where
  "solvePDE_call N u e = (e, solvePDE N e u)"

section \<open>Greeks.py\<close>

text \<open>
  \<open>computeGreeks\<close> works on the Underlying that the engine refers to, changes it in
  place between the solves and may be left by an exception at any call. It is
  modelled as a computation on a state that every step returns, also when it raises:
  the Underlying, and the number of calls of \<open>solvePDE\<close> made so far.
\<close>

type_synonym 'a run = "underlying \<times> nat \<Rightarrow> (underlying \<times> nat) \<times> (error + 'a)"

definition rbind :: "'a run \<Rightarrow> ('a \<Rightarrow> 'b run) \<Rightarrow> 'b run" where
  "rbind m f = (\<lambda>st. case m st of
                        (st1, Inl err) \<Rightarrow> (st1, Inl err)
                      | (st1, Inr x) \<Rightarrow> f x st1)"

definition rreturn :: "error + 'a \<Rightarrow> 'a run" where
  "rreturn r = (\<lambda>st. (st, r))"

definition the_underlying :: "underlying run" where
  "the_underlying = (\<lambda>st. (st, Inr (fst st)))"

definition call_solvePDE :: "numerics \<Rightarrow> engine \<Rightarrow> scalar run" where
  "call_solvePDE N e = (\<lambda>st. ((fst st, Suc (snd st)), solvePDE N e (fst st)))"

definition call_setter :: "(underlying \<Rightarrow> underlying \<times> (error + unit)) \<Rightarrow> unit run" where
  "call_setter setter = (\<lambda>st. ((fst (setter (fst st)), snd st), snd (setter (fst st))))"

text \<open>
  Division of floats: by a zero, built-in \<open>float\<close>s raise ZeroDivisionError, and numpy
  goes on with an infinity or a NaN.
\<close>

definition sc_div :: "scalar \<Rightarrow> scalar \<Rightarrow> error + scalar" where
  "sc_div a b =
     (if val b = 0 then (if is_np a \<or> is_np b then Inl NonFinite else Inl ZeroDivisionError)
      else Inr (sc_binop (/) a b))"

text \<open>The finite differences at the end of \<open>computeGreeks\<close>.\<close>

definition finite_differences ::
  "scalar \<Rightarrow> scalar \<Rightarrow> scalar \<Rightarrow> scalar \<Rightarrow> scalar \<Rightarrow> error + real \<times> real \<times> real \<times> real" where
  "finite_differences premium premium_minus premium_plus premium_linear spot_bump =
     ebind (sc_div (sc_binop (*) (PyFloat 100) (sc_binop (-) premium_plus premium_minus))
              (sc_binop (*) (PyFloat 2) spot_bump)) (\<lambda>delta.
     ebind (sc_div (sc_binop (*) (PyFloat 100)
                      (sc_binop (+) (sc_binop (-) premium_plus
                                       (sc_binop (*) (PyFloat 2) premium)) premium_minus))
              (sc_binop (*) spot_bump spot_bump)) (\<lambda>gamma.
       let surprime = sc_binop (-) premium premium_linear
       in Inr (val premium, val delta, val gamma, val surprime)))"

definition computeGreeks ::
  "numerics \<Rightarrow> engine \<Rightarrow> real \<Rightarrow> (real \<times> real \<times> real \<times> real) run" where
  "computeGreeks N e bump_for_delta =
     rbind the_underlying (\<lambda>u0.
       let spot0 = getSpot u0;
           spot_bump = sc_binop (*) (PyFloat bump_for_delta) spot0
       in rbind (call_solvePDE N e) (\<lambda>premium.
          rbind (call_setter (setSpot (sc_binop (-) spot0 spot_bump))) (\<lambda>_.
          rbind (call_solvePDE N e) (\<lambda>premium_minus.
          rbind (call_setter (setSpot (sc_binop (+) spot0 spot_bump))) (\<lambda>_.
          rbind (call_solvePDE N e) (\<lambda>premium_plus.
          rbind (call_setter (setSpot spot0)) (\<lambda>_.
          rbind the_underlying (\<lambda>u1.
            if isNonLinear u1
            then (case getVol u1 of
                    VolTuple [VolFloat bid, VolFloat ask] \<Rightarrow>
                      rbind (call_setter (setVol (VolFloat (0.5 * (bid + ask))))) (\<lambda>_.
                      rbind (call_solvePDE N e) (\<lambda>premium_linear.
                      rbind (call_setter (setVol (VolTuple [VolFloat bid, VolFloat ask]))) (\<lambda>_.
                        rreturn (finite_differences premium premium_minus premium_plus
                                   premium_linear spot_bump))))
                  | _ \<Rightarrow> rreturn (Inl TypeError))
            else rreturn (finite_differences premium premium_minus premium_plus
                            premium spot_bump)))))))))"

section \<open>A library instance for concrete runs\<close>

text \<open>
  The exact logarithm, exponential and square root. No run evaluated in this
  development reaches the banded solve or the spline, so the two entries only fill
  the record.
\<close>

definition exact_library :: numerics where
  "exact_library =
     \<lparr>np_log = ln, np_exp = exp, np_sqrt = sqrt,
      solve_banded = (\<lambda>bm b. Inl NonFinite),
      CubicSpline = (\<lambda>xs ys. Inl NonFinite)\<rparr>"

section \<open>Properties stated below\<close>

text \<open>
  Row \<open>j\<close> of the tridiagonal matrix that the three bands stand for is strictly
  diagonally dominant. In scipy's layout \<open>bm[0][j + 1]\<close> is the entry \<open>(j, j + 1)\<close>
  and \<open>bm[2][j - 1]\<close> the entry \<open>(j, j - 1)\<close>.
\<close>

definition row_dominant :: "real list list \<Rightarrow> nat \<Rightarrow> bool" where
  "row_dominant bm j =
     ((if 1 \<le> j then \<bar>bm ! 2 ! (j - 1)\<bar> else 0)
        + (if j + 1 < length (bm ! 1) then \<bar>bm ! 0 ! (j + 1)\<bar> else 0)
      < \<bar>bm ! 1 ! j\<bar>)"

section \<open>Objects of the concrete runs\<close>

text \<open>
  An up-and-out call spread with the barrier at 100 and no notional, its engine on
  three nodes and two time points as the constructor builds it for a reference spot
  of 100, and an Underlying with a bid/ask volatility whose spot is a
  \<open>numpy.float64\<close>, as the sweep of the repository sets it.
\<close>

definition call_spread :: payoff where
  "call_spread = UpAndOutCallSpread 1 None 90 95 100"

definition call_spread_engine :: engine where
  "call_spread_engine =
     \<lparr>payoff = call_spread, t_mesh = [1, 0], dT = - 1, nb_t_steps = 2,
      x_mesh = [ln 100 - 6 / 5, ln 100 - 3 / 5, ln 100], dX = 3 / 5, nb_x_steps = 3,
      s_mesh = [exp (ln 100 - 6 / 5), exp (ln 100 - 3 / 5), 100],
      nb_non_linear_iter = 50, nb_non_linear_tol = 1 / 10 ^ 8\<rparr>"

definition band_underlying :: "real \<Rightarrow> underlying" where
  "band_underlying s =
     \<lparr>spot = NpFloat s, reference_spot = NpFloat 100,
      vol = VolTuple [VolFloat (15 / 100), VolFloat (25 / 100)],
      reference_vol = 2 / 10, is_non_linear = True\<rparr>"

text \<open>A double no-touch between 80 and 120 and its engine for the same Underlying.\<close>

definition no_touch :: payoff where
  "no_touch = DoubleNoTouch 1 (Some (- 1)) 80 120"

definition no_touch_engine :: engine where
  "no_touch_engine =
     \<lparr>payoff = no_touch, t_mesh = [1, 0], dT = - 1, nb_t_steps = 2,
      x_mesh = [ln 80, ln 80 + (ln 120 - ln 80) / 2, ln 120],
      dX = (ln 120 - ln 80) / 2, nb_x_steps = 3,
      s_mesh = [80, exp (ln 80 + (ln 120 - ln 80) / 2), 120],
      nb_non_linear_iter = 50, nb_non_linear_tol = 1 / 10 ^ 8\<rparr>"

text \<open>
  An American call at its expiry (\<open>Expiry = 0\<close>), and an Underlying with a single
  volatility whose spot is a built-in \<open>float\<close>.
\<close>

definition expired_call_engine :: engine where
  "expired_call_engine =
     \<lparr>payoff = AmericanCall 0 None 100, t_mesh = [0, 0], dT = 0, nb_t_steps = 2,
      x_mesh = [ln 100, ln 100, ln 100], dX = 0, nb_x_steps = 3,
      s_mesh = [100, 100, 100],
      nb_non_linear_iter = 50, nb_non_linear_tol = 1 / 10 ^ 8\<rparr>"

definition flat_underlying :: underlying where
  "flat_underlying =
     \<lparr>spot = PyFloat 100, reference_spot = PyFloat 100, vol = VolFloat (2 / 10),
      reference_vol = 2 / 10, is_non_linear = False\<rparr>"

text \<open>
  An American call with a notional on four nodes of step 1, and one on three nodes
  of step 4 (expiry 4, three time points, a reference volatility of 1/3).
\<close>

definition american_engine :: engine where
  "american_engine =
     \<lparr>payoff = AmericanCall 1 (Some (- 1)) 1, t_mesh = [1, 0], dT = - 1, nb_t_steps = 2,
      x_mesh = [- (3 / 2), - (1 / 2), 1 / 2, 3 / 2], dX = 1, nb_x_steps = 4,
      s_mesh = [exp (- (3 / 2)), exp (- (1 / 2)), exp (1 / 2), exp (3 / 2)],
      nb_non_linear_iter = 50, nb_non_linear_tol = 1 / 10 ^ 8\<rparr>"

definition wide_engine :: engine where
  "wide_engine =
     \<lparr>payoff = AmericanCall 4 None 1, t_mesh = [4, 2, 0], dT = - 2, nb_t_steps = 3,
      x_mesh = [- 4, 0, 4], dX = 4, nb_x_steps = 3,
      s_mesh = [exp (- 4), 1, exp 4],
      nb_non_linear_iter = 50, nb_non_linear_tol = 1 / 10 ^ 8\<rparr>"

text \<open>
  The inputs that validation rejects, in the words of the specification: a scalar
  that is not positive, a tuple that is not exactly two floats, a pair that violates
  \<open>0 < bid \<le> ask\<close>.
\<close>

definition rejected_vol :: "volatility \<Rightarrow> bool" where
  "rejected_vol v =
     (case v of
        VolFloat x \<Rightarrow> x \<le> 0
      | VolTuple vs \<Rightarrow>
          (case vs of
             [VolFloat b, VolFloat a] \<Rightarrow> \<not> (0 < b \<and> b \<le> a)
           | _ \<Rightarrow> True)
      | VolOther \<Rightarrow> True)"

section \<open>Underlying: the setters\<close>

lemma validateVol_rejected: "rejected_vol v \<Longrightarrow> validateVol v = Inl InvalidVolatility"
proof (cases v)
  case (VolFloat x)
  assume "rejected_vol v"
  with VolFloat show ?thesis by (simp add: rejected_vol_def)
next
  case (VolTuple vs)
  assume r: "rejected_vol v"
  show ?thesis
  proof (cases "length vs = 2")
    case False
    with VolTuple show ?thesis by simp
  next
    case True
    then obtain p q where vs: "vs = [p, q]"
      by (cases vs; cases "tl vs") auto
    with r VolTuple show ?thesis
      by (cases p; cases q) (auto simp: rejected_vol_def)
  qed
next
  case VolOther
  then show ?thesis by simp
qed

lemma validateVol_accepted: "\<not> rejected_vol v \<Longrightarrow> validateVol v = Inr ()"
proof (cases v)
  case (VolFloat x)
  assume "\<not> rejected_vol v"
  with VolFloat show ?thesis by (simp add: rejected_vol_def)
next
  case (VolTuple vs)
  assume r: "\<not> rejected_vol v"
  show ?thesis
  proof (cases vs)
    case Nil
    with r VolTuple show ?thesis by (simp add: rejected_vol_def)
  next
    case (Cons p ps)
    show ?thesis
    proof (cases ps)
      case Nil
      with r VolTuple Cons show ?thesis
        by (cases p) (simp_all add: rejected_vol_def)
    next
      case (Cons q qs)
      with r VolTuple \<open>vs = p # ps\<close> show ?thesis
        by (cases p; cases q; cases qs) (simp_all add: rejected_vol_def)
    qed
  qed
next
  case VolOther
  assume "\<not> rejected_vol v"
  with VolOther show ?thesis by (simp add: rejected_vol_def)
qed

text \<open>
  C10. Every setter of the Underlying is atomic on failure: a spot or reference spot
  that is not positive, and a volatility or reference volatility that validation
  rejects, make the setter raise and leave the whole object (spot, reference spot,
  vol, reference vol and the non-linear flag) as it was.
\<close>

theorem setters_atomic_on_failure:
  "(val s \<le> 0 \<longrightarrow> setSpot s u = (u, Inl InvalidSpot)) \<and>
   (val s \<le> 0 \<longrightarrow> setReferenceSpot s u = (u, Inl InvalidSpot)) \<and>
   (rejected_vol v \<longrightarrow> setVol v u = (u, Inl InvalidVolatility)) \<and>
   (rejected_vol v \<longrightarrow> setReferenceVol v u = (u, Inl InvalidVolatility))"
  by (simp add: setSpot_def setReferenceSpot_def setVol_def setReferenceVol_def
      validateSpot_def validateVol_rejected)

theorem setters_atomic_on_failure_witness:
  "val (PyFloat (-1)) \<le> 0 \<and> rejected_vol (VolTuple [VolFloat 0.2, VolFloat 0.15]) \<and>
   setSpot (PyFloat (-1))
     \<lparr>spot = PyFloat 100, reference_spot = PyFloat 100, vol = VolFloat 0.2,
      reference_vol = 0.2, is_non_linear = False\<rparr>
   = (\<lparr>spot = PyFloat 100, reference_spot = PyFloat 100, vol = VolFloat 0.2,
       reference_vol = 0.2, is_non_linear = False\<rparr>, Inl InvalidSpot) \<and>
   setReferenceSpot (PyFloat (-1))
     \<lparr>spot = PyFloat 100, reference_spot = PyFloat 100, vol = VolFloat 0.2,
      reference_vol = 0.2, is_non_linear = False\<rparr>
   = (\<lparr>spot = PyFloat 100, reference_spot = PyFloat 100, vol = VolFloat 0.2,
       reference_vol = 0.2, is_non_linear = False\<rparr>, Inl InvalidSpot) \<and>
   setVol (VolTuple [VolFloat 0.2, VolFloat 0.15])
     \<lparr>spot = PyFloat 100, reference_spot = PyFloat 100, vol = VolFloat 0.2,
      reference_vol = 0.2, is_non_linear = False\<rparr>
   = (\<lparr>spot = PyFloat 100, reference_spot = PyFloat 100, vol = VolFloat 0.2,
       reference_vol = 0.2, is_non_linear = False\<rparr>, Inl InvalidVolatility) \<and>
   setReferenceVol (VolTuple [VolFloat 0.2, VolFloat 0.15])
     \<lparr>spot = PyFloat 100, reference_spot = PyFloat 100, vol = VolFloat 0.2,
      reference_vol = 0.2, is_non_linear = False\<rparr>
   = (\<lparr>spot = PyFloat 100, reference_spot = PyFloat 100, vol = VolFloat 0.2,
       reference_vol = 0.2, is_non_linear = False\<rparr>, Inl InvalidVolatility)"
  using setters_atomic_on_failure
    [of "PyFloat (-1)"
        "\<lparr>spot = PyFloat 100, reference_spot = PyFloat 100, vol = VolFloat 0.2,
          reference_vol = 0.2, is_non_linear = False\<rparr>"
        "VolTuple [VolFloat 0.2, VolFloat 0.15]"]
  by (simp add: rejected_vol_def)


section \<open>Helper facts\<close>

lemma ebind_Inl [simp]: "ebind (Inl e) f = Inl e"
  by (simp add: ebind_def)

lemma ebind_Inr [simp]: "ebind (Inr x) f = f x"
  by (simp add: ebind_def)

lemma val_sc_binop [simp]: "val (sc_binop f a b) = f (val a) (val b)"
  by (simp add: sc_binop_def)

lemma py_get_nth: "k < length xs \<Longrightarrow> py_get xs (int k) = Inr (xs ! k)"
  by (simp add: py_get_def py_index_def)

lemma py_get_neg:
  "0 < k \<Longrightarrow> k \<le> length xs \<Longrightarrow> py_get xs (- int k) = Inr (xs ! (length xs - k))"
  by (auto simp add: py_get_def py_index_def nat_diff_distrib' of_nat_diff)

lemma py_set_nth: "k < length xs \<Longrightarrow> py_set xs (int k) v = Inr (xs[k := v])"
  by (simp add: py_set_def py_index_def)

lemma py_set_neg:
  "0 < k \<Longrightarrow> k \<le> length xs \<Longrightarrow> py_set xs (- int k) v = Inr (xs[length xs - k := v])"
  by (auto simp add: py_set_def py_index_def nat_diff_distrib' of_nat_diff)

lemma ln_3800_3900: "ln (3800::real) \<le> ln 3900"
  by simp

lemma ln_80_100: "ln (100::real) - 6 / 5 \<le> ln 80"
proof -
  have "ln (5 / 4 :: real) = ln 100 - ln 80"
    using ln_div [of "100::real" 80] by simp
  moreover have "ln (5 / 4 :: real) \<le> 5 / 4 - 1"
    by (rule ln_le_minus_one) simp
  ultimately show ?thesis by simp
qed

lemma ln_120_100: "ln (120::real) \<le> ln 100 + 6 / 5"
proof -
  have "ln (6 / 5 :: real) = ln 120 - ln 100"
    using ln_div [of "120::real" 100] by simp
  moreover have "ln (6 / 5 :: real) \<le> 6 / 5 - 1"
    by (rule ln_le_minus_one) simp
  ultimately show ?thesis by simp
qed

text \<open>The definitions that a run of the two constructors unfolds.\<close>

lemmas run_defs =
  Underlying_init_def setSpot_def setReferenceSpot_def setVol_def setReferenceVol_def
  validateSpot_def NonLinearPDESolver_init_def exact_library_def linspace_def getExpiry_def
  getReferenceSpot_def getReferenceVol_def log_level_def Let_def log_spot_bound_def
  narrowed_x_min_def narrowed_x_max_def spot_mesh_def upt_rec numeral_eq_Suc
  level_value_def py_set_def py_get_def py_index_def

text \<open>The objects of the concrete runs are the ones the constructors build.\<close>

lemma band_underlying_built:
  "Underlying_init (NpFloat 100) (VolTuple [VolFloat (15 / 100), VolFloat (25 / 100)])
     = Inr (band_underlying 100)"
  by (simp add: run_defs band_underlying_def)

lemma flat_underlying_built:
  "Underlying_init (PyFloat 100) (VolFloat (2 / 10)) = Inr flat_underlying"
  by (simp add: run_defs flat_underlying_def)

lemma call_spread_engine_built:
  "NonLinearPDESolver_init exact_library call_spread (band_underlying 100)
     2 3 (- 6) 6 50 (1 / 10 ^ 8) = Inr call_spread_engine"
  by (simp add: run_defs band_underlying_def call_spread_def call_spread_engine_def)

lemma no_touch_engine_built:
  "NonLinearPDESolver_init exact_library no_touch (band_underlying 100)
     2 3 (- 6) 6 50 (1 / 10 ^ 8) = Inr no_touch_engine"
  using ln_80_100 ln_120_100
  by (simp add: run_defs band_underlying_def no_touch_def no_touch_engine_def)

lemma expired_call_engine_built:
  "NonLinearPDESolver_init exact_library (AmericanCall 0 None 100) flat_underlying
     2 3 (- 6) 6 50 (1 / 10 ^ 8) = Inr expired_call_engine"
  by (simp add: run_defs flat_underlying_def expired_call_engine_def)

lemma american_engine_built:
  "NonLinearPDESolver_init exact_library (AmericanCall 1 (Some (- 1)) 1)
     \<lparr>spot = PyFloat 1, reference_spot = PyFloat 1,
      vol = VolTuple [VolFloat (15 / 100), VolFloat (35 / 100)],
      reference_vol = 1 / 4, is_non_linear = True\<rparr>
     2 4 (- 6) 6 50 (1 / 10 ^ 8) = Inr american_engine"
  by (simp add: run_defs american_engine_def)

lemma wide_engine_built:
  "NonLinearPDESolver_init exact_library (AmericanCall 4 None 1)
     \<lparr>spot = PyFloat 1, reference_spot = PyFloat 1, vol = VolFloat 4,
      reference_vol = 1 / 3, is_non_linear = False\<rparr>
     3 3 (- 6) 6 50 (1 / 10 ^ 8) = Inr wide_engine"
  by (simp add: run_defs wide_engine_def)

section \<open>The implicit step and the grid path\<close>

lemma getDirichletBoundaries_three_arguments:
  "getDirichletBoundaries p [a, b, c] = Inl TypeError"
  by (simp add: getDirichletBoundaries_def)

lemma solveOneStep_raises: "\<exists>err. solveOneStep N e i vols solution = Inl err"
proof (cases "length vols \<noteq> nb_x_steps e")
  case True
  then show ?thesis by (simp add: solveOneStep_def)
next
  case False
  then show ?thesis
    by (cases "py_get (t_mesh e) (int i + 1)")
       (simp_all add: solveOneStep_def Let_def getDirichletBoundaries_three_arguments)
qed

lemma solveOneStep_TypeError:
  assumes "length vols = nb_x_steps e" and "Suc i < length (t_mesh e)"
  shows "solveOneStep N e i vols solution = Inl TypeError"
  using assms
  by (simp add: solveOneStep_def Let_def py_get_def py_index_def
      getDirichletBoundaries_three_arguments)

lemma timeStep_raises: "\<exists>err. timeStep N e u i st = Inl err"
proof (cases "isNonLinear u")
  case True
  show ?thesis
  proof (cases "\<exists>bid ask. getVol u = VolTuple [VolFloat bid, VolFloat ask]")
    case True
    then obtain bid ask where v: "getVol u = VolTuple [VolFloat bid, VolFloat ask]"
      by blast
    obtain err where
      "solveOneStep N e i (replicate (nb_x_steps e) (0.5 * (bid + ask))) (fst st) = Inl err"
      using solveOneStep_raises by blast
    with \<open>isNonLinear u\<close> v show ?thesis
      by (simp add: timeStep_def nonLinearStep_def Let_def)
  next
    case False
    with \<open>isNonLinear u\<close> show ?thesis
      by (auto simp add: timeStep_def Let_def split: volatility.splits list.splits)
  qed
next
  case False
  show ?thesis
  proof (cases "getVol u")
    case (VolFloat v)
    obtain err where "solveOneStep N e i (replicate (nb_x_steps e) v) (fst st) = Inl err"
      using solveOneStep_raises by blast
    with False VolFloat show ?thesis by (simp add: timeStep_def Let_def)
  qed (use False in \<open>simp_all add: timeStep_def Let_def\<close>)
qed

lemma timeLoop_raises: "is \<noteq> [] \<Longrightarrow> \<exists>err. timeLoop N e u is st = Inl err"
proof (cases "is")
  case (Cons i rest)
  obtain err where "timeStep N e u i st = Inl err"
    using timeStep_raises by blast
  with Cons show ?thesis by simp
qed simp

text \<open>
  With at least two time points, no call of \<open>solvePDE\<close> that leaves the fast path
  returns: whatever the payoff, the Underlying and the library.
\<close>

lemma solvePDE_grid_raises:
  assumes "\<not> fast_path e u" and "2 \<le> nb_t_steps e"
  shows "\<exists>err. solvePDE N e u = Inl err"
proof -
  from assms(2) have ne: "[0..<nb_t_steps e - 1] \<noteq> []" by simp
  have loop: "\<exists>err. timeLoop N e u [0..<nb_t_steps e - 1] st = Inl err" for st
    using timeLoop_raises [OF ne] by blast
  show ?thesis
  proof (cases "getPayoff (payoff e) (Array (s_mesh e))")
    case (Inl a)
    with assms(1) show ?thesis by (simp add: solvePDE_def Let_def)
  next
    case (Inr terminal)
    show ?thesis
    proof (cases "as_array terminal")
      case (Inl a)
      with Inr assms(1) show ?thesis by (simp add: solvePDE_def Let_def)
    next
      case sol0: (Inr solution0)
      show ?thesis
      proof (cases "py_get (t_mesh e) 0")
        case (Inl a)
        with Inr sol0 assms(1) show ?thesis by (simp add: solvePDE_def Let_def)
      next
        case t0: (Inr t0)
        show ?thesis
        proof (cases "getConstraint (payoff e) (s_mesh e) t0 solution0")
          case (Inl a)
          with Inr sol0 t0 assms(1) show ?thesis by (simp add: solvePDE_def Let_def)
        next
          case s1: (Inr solution1)
          obtain err where
            "timeLoop N e u [0..<nb_t_steps e - 1] (solution1, None) = Inl err"
            using loop by blast
          with Inr sol0 t0 s1 assms(1) show ?thesis by (simp add: solvePDE_def Let_def)
        qed
      qed
    qed
  qed
qed

text \<open>
  C1. "Whenever \<open>solvePDE\<close> does not take the fast path and does not raise the
  missing-notional error, it runs to completion and returns a premium; every implicit
  solve, with its call of \<open>getDirichletBoundaries(spotArray, time, currentSolution)\<close>,
  completes without error." The code does not: for an American call with expiry 1 and
  strike 1, an Underlying at spot 1 with volatility 0.25, two time points and four
  nodes, the first implicit step passes three arguments to a method declared with
  two, and \<open>solvePDE\<close> raises TypeError.
\<close>

theorem solvePDE_grid_TypeError:
  "ebind (Underlying_init (PyFloat 1) (VolFloat (1 / 4))) (\<lambda>u.
     ebind (NonLinearPDESolver_init exact_library (AmericanCall 1 None 1) u
              2 4 (- 6) 6 50 (1 / 10 ^ 8))
       (\<lambda>e. solvePDE exact_library e u)) = Inl TypeError"
  by (simp add: run_defs solvePDE_def fast_path_def getSpot_def isNonLinear_def
      getNotional_def py_def sc_binop_def timeStep_def getVol_def solveOneStep_def
      getDirichletBoundaries_def)

section \<open>The fast path\<close>

lemma solvePDE_fast_path:
  "fast_path e u \<Longrightarrow>
     solvePDE N e u = ebind (getPayoff (payoff e) (Scalar (getSpot u))) to_float"
  by (simp add: solvePDE_def Let_def)

lemma barrier_builtin_float: "barrier (Scalar (PyFloat x)) b is_down is_out = Inl AttributeError"
  by (simp add: barrier_def py_def sc_binop_def)

lemma getPayoff_builtin_float:
  "getPayoff (UpAndOutCallSpread ex no k uk b) (Scalar (PyFloat x)) = Inl AttributeError"
  "getPayoff (DownAndOutPut ex no k b rb) (Scalar (PyFloat x)) = Inl AttributeError"
  "getPayoff (DoubleNoTouch ex no bd bu) (Scalar (PyFloat x)) = Inl AttributeError"
  by (simp_all add: barrier_builtin_float)

lemma getPayoff_american_scalar:
  "getPayoff (AmericanCall ex no k) (Scalar s) = Inr (Scalar (NpFloat (max (val s - k) 0)))"
  by (simp add: py_def)

text \<open>
  C2. "For every payoff variant and every valid Underlying, if the time to expiry is
  not positive or the spot lies outside the open barrier interval, \<open>solvePDE\<close> returns
  exactly \<open>getPayoff(spot)\<close> at the scalar spot." The fast path does hand the scalar
  to \<open>getPayoff\<close> (\<open>solvePDE_fast_path\<close>), but for the three barrier payoffs
  \<open>getPayoff\<close> goes through \<open>barrier\<close>, which reads \<open>perf.shape\<close>: with a built-in
  \<open>float\<close> spot there is none. For the down-and-out put of the specification (strike
  4200, barrier 3900, rebate 0) and \<open>Underlying(spot=3800.0, vol=0.2)\<close> the call raises
  AttributeError where the rebate 0 is expected.
\<close>

theorem solvePDE_fast_path_AttributeError:
  "ebind (Underlying_init (PyFloat 3800) (VolFloat (2 / 10))) (\<lambda>u.
     ebind (NonLinearPDESolver_init exact_library (DownAndOutPut 1 None 4200 3900 0) u
              2 4 (- 6) 6 50 (1 / 10 ^ 8))
       (\<lambda>e. solvePDE exact_library e u)) = Inl AttributeError"
  using ln_3800_3900
  by (simp add: run_defs solvePDE_def fast_path_def getSpot_def isNonLinear_def
      getNotional_def py_def sc_binop_def barrier_def)

section \<open>The notional of a non-linear pricing\<close>




section \<open>The tridiagonal system\<close>

lemma bandedMatrix_rows:
  assumes "j < nb_x_steps e" and "length vols = nb_x_steps e"
  shows "bandedMatrix e vols ! 1 ! j = 1 + 2 * (0.5 * vols ! j * vols ! j) * secondOrder e"
    and "length (bandedMatrix e vols ! 1) = nb_x_steps e"
    and "1 \<le> j \<Longrightarrow> bandedMatrix e vols ! 2 ! (j - 1)
           = 0.5 * vols ! j * vols ! j * (- firstOrder e - secondOrder e)"
    and "j + 1 < nb_x_steps e \<Longrightarrow> bandedMatrix e vols ! 0 ! (j + 1)
           = 0.5 * vols ! j * vols ! j * (firstOrder e - secondOrder e)"
  using assms by (simp_all add: bandedMatrix_def Let_def)

lemma secondOrder_positive:
  assumes "dT e < 0" and "dX e \<noteq> 0"
  shows "0 < secondOrder e"
proof -
  have "0 < dX e * dX e"
    using assms(2) not_real_square_gt_zero by blast
  then show ?thesis
    using assms(1) by (simp add: secondOrder_def divide_neg_pos)
qed

lemma bandedMatrix_row_dominant:
  assumes "j < nb_x_steps e" and "length vols = nb_x_steps e"
    and "dT e < 0" and "dX e \<noteq> 0" and "\<bar>dX e\<bar> \<le> 2"
  shows "row_dominant (bandedMatrix e vols) j"
proof -
  define h where "h = 0.5 * vols ! j * vols ! j"
  define f where "f = firstOrder e"
  define s where "s = secondOrder e"
  have h0: "0 \<le> h" by (simp add: h_def)
  have s0: "0 < s" using secondOrder_positive [OF assms(3,4)] by (simp add: s_def)
  have fs: "f = 0.5 * dX e * s"
    using assms(4) by (simp add: f_def s_def firstOrder_def secondOrder_def)
  have "\<bar>f\<bar> = 0.5 * \<bar>dX e\<bar> * s" using s0 by (simp add: fs abs_mult)
  also have "\<dots> \<le> s" using assms(5) s0 by (simp add: mult_left_le_one_le)
  finally have fle: "\<bar>f\<bar> \<le> s" .
  have lo: "\<bar>bandedMatrix e vols ! 2 ! (j - 1)\<bar> = h * (f + s)" if "1 \<le> j"
  proof -
    have "\<bar>h * (- f - s)\<bar> = h * (f + s)" using h0 fle by (simp add: abs_mult)
    with bandedMatrix_rows(3) [OF assms(1,2) that] show ?thesis
      by (simp add: h_def f_def s_def)
  qed
  have up: "\<bar>bandedMatrix e vols ! 0 ! (j + 1)\<bar> = h * (s - f)" if "j + 1 < nb_x_steps e"
  proof -
    have "\<bar>h * (f - s)\<bar> = h * (s - f)" using h0 fle by (simp add: abs_mult)
    with bandedMatrix_rows(4) [OF assms(1,2) that] show ?thesis
      by (simp add: h_def f_def s_def)
  qed
  have hs: "0 \<le> h * s" using h0 s0 by simp
  have di: "\<bar>bandedMatrix e vols ! 1 ! j\<bar> = 1 + 2 * h * s"
    using bandedMatrix_rows(1) [OF assms(1,2)] hs by (simp add: h_def s_def)
  have b1: "h * (f + s) \<le> 2 * h * s"
  proof -
    have "f + s \<le> 2 * s" using fle by simp
    from mult_left_mono [OF this h0] show ?thesis by (simp add: mult.assoc mult.left_commute)
  qed
  have b2: "h * (s - f) \<le> 2 * h * s"
  proof -
    have "s - f \<le> 2 * s" using fle by simp
    from mult_left_mono [OF this h0] show ?thesis by (simp add: mult.assoc mult.left_commute)
  qed
  have b3: "h * (f + s) + h * (s - f) = 2 * h * s" by (simp add: algebra_simps)
  show ?thesis
    unfolding row_dominant_def di bandedMatrix_rows(2) [OF assms(1,2)]
    using lo up b1 b2 b3 hs by (auto simp add: not_le)
qed




section \<open>The choice of the volatility\<close>

lemma gamma_of_values:
  assumes "length prev = nb_x_steps e"
  shows "gamma_of e prev =
           Inr (map (\<lambda>j. (if 1 \<le> j \<and> j + 1 < nb_x_steps e
                           then (1 + 0.5 * dX e) * prev ! (j - 1) - 2 * prev ! j
                                  + (1 - 0.5 * dX e) * prev ! (j + 1)
                           else 0) / (dX e * dX e)) [0..<nb_x_steps e])"
  using assms by (simp add: gamma_of_def)

lemma optimizedVol_of_values:
  assumes "2 \<le> length gamma"
  shows "optimizedVol_of bid ask (Some nt) gamma =
     Inr (let ov = map (\<lambda>g. bid + (ask - bid) * 0.5 * (1 + sgn (- g * nt))) gamma;
              ov1 = ov[0 := ov ! 1]
          in ov1[length gamma - 1 := ov1 ! (length gamma - 2)])"
proof -
  define ov where "ov = map (\<lambda>g. bid + (ask - bid) * 0.5 * (1 + sgn (- g * nt))) gamma"
  define ov1 where "ov1 = ov[0 := ov ! 1]"
  have l: "length ov = length gamma" "length ov1 = length gamma"
    by (simp_all add: ov_def ov1_def)
  have ne: "gamma \<noteq> []" using assms by auto
  have g1: "py_get ov 1 = Inr (ov ! 1)"
    using py_get_nth [of 1 ov] assms l ne by auto
  have s0: "py_set ov 0 (ov ! 1) = Inr ov1"
    using py_set_nth [of 0 ov "ov ! 1"] assms l ne by (auto simp add: ov1_def)
  have g2: "py_get ov1 (- 2) = Inr (ov1 ! (length gamma - 2))"
    using py_get_neg [of 2 ov1] assms l ne by auto
  have s1: "py_set ov1 (- 1) (ov1 ! (length gamma - 2))
              = Inr (ov1[length gamma - 1 := ov1 ! (length gamma - 2)])"
    using py_set_neg [of 1 ov1 "ov1 ! (length gamma - 2)"] assms l ne by auto
  have "optimizedVol_of bid ask (Some nt) gamma =
          ebind (py_get ov 1) (\<lambda>v1. ebind (py_set ov 0 v1) (\<lambda>optimizedVol1.
             ebind (py_get optimizedVol1 (- 2)) (\<lambda>v2. py_set optimizedVol1 (- 1) v2)))"
    by (simp add: optimizedVol_of_def ov_def Let_def)
  also have "\<dots> = Inr (ov1[length gamma - 1 := ov1 ! (length gamma - 2)])"
    by (simp only: g1 s0 g2 s1 ebind_Inr)
  finally show ?thesis by (simp add: Let_def ov_def ov1_def)
qed




section \<open>The non-linear loop\<close>

lemma nonLinearLoop_bound:
  "nonLinearLoop step e bid ask nt k nlIter prev c = Inr (r, m)
     \<Longrightarrow> nlIter \<le> m \<and> m \<le> nlIter + k"
proof (induction k arbitrary: nlIter prev c)
  case 0
  then show ?case by simp
next
  case (Suc k)
  from Suc.prems obtain gamma where g: "gamma_of e prev = Inr gamma"
    by (cases "gamma_of e prev") simp_all
  from Suc.prems g obtain ov where o: "optimizedVol_of bid ask nt gamma = Inr ov"
    by (cases "optimizedVol_of bid ask nt gamma") simp_all
  from Suc.prems g o obtain it where s: "step ov = Inr it"
    by (cases "step ov") simp_all
  show ?case
  proof (cases "l2_norm (map2 (-) it prev) / real (nb_x_steps e) \<le> nb_non_linear_tol e")
    case True
    with Suc.prems g o s show ?thesis by simp
  next
    case False
    with Suc.prems g o s
    have "nonLinearLoop step e bid ask nt k (nlIter + 1) it (Some it) = Inr (r, m)"
      by simp
    from Suc.IH [OF this] show ?thesis by simp
  qed
qed

lemma nonLinearLoop_bound_result:
  "nonLinearLoop step e bid ask nt k nlIter prev c = Inr (r, m)
     \<Longrightarrow> 0 < k \<or> c \<noteq> None \<Longrightarrow> r \<noteq> None"
proof (induction k arbitrary: nlIter prev c)
  case 0
  then show ?case by simp
next
  case (Suc k)
  from Suc.prems obtain gamma where g: "gamma_of e prev = Inr gamma"
    by (cases "gamma_of e prev") simp_all
  from Suc.prems g obtain ov where o: "optimizedVol_of bid ask nt gamma = Inr ov"
    by (cases "optimizedVol_of bid ask nt gamma") simp_all
  from Suc.prems g o obtain it where s: "step ov = Inr it"
    by (cases "step ov") simp_all
  show ?case
  proof (cases "l2_norm (map2 (-) it prev) / real (nb_x_steps e) \<le> nb_non_linear_tol e")
    case True
    with Suc.prems g o s show ?thesis by auto
  next
    case False
    with Suc.prems g o s
    have r: "nonLinearLoop step e bid ask nt k (nlIter + 1) it (Some it) = Inr (r, m)"
      by simp
    from Suc.IH [OF r] show ?thesis by simp
  qed
qed

text \<open>The loop stops at the first iterate within the tolerance of its predecessor.\<close>

lemma nonLinearLoop_stops:
  assumes "gamma_of e prev = Inr gamma" and "optimizedVol_of bid ask nt gamma = Inr ov"
    and "step ov = Inr it"
    and "l2_norm (map2 (-) it prev) / real (nb_x_steps e) \<le> nb_non_linear_tol e"
  shows "nonLinearLoop step e bid ask nt (Suc k) nlIter prev c = Inr (Some it, nlIter + 1)"
  using assms by simp

text \<open>
  With a cap of at least one, a non-linear step that returns has run the body of the
  loop between one and \<open>nb_non_linear_iter\<close> times; with a cap that is not positive
  it cannot return on the first time step.
\<close>

lemma nonLinearStep_iterations:
  assumes "step (replicate (nb_x_steps e) (0.5 * (bid + ask))) = Inr prev"
    and "nonLinearLoop step e bid ask nt (nat (nb_non_linear_iter e)) 0 prev c = Inr (r, m)"
    and "1 \<le> nb_non_linear_iter e"
  shows "1 \<le> m \<and> int m \<le> nb_non_linear_iter e \<and>
         (\<exists>it. r = Some it \<and> nonLinearStep step e bid ask nt c = Inr it)"
proof -
  from assms(3) have k: "0 < nat (nb_non_linear_iter e)" by simp
  from nonLinearLoop_bound [OF assms(2)] assms(3) have b: "int m \<le> nb_non_linear_iter e"
    by simp
  from nonLinearLoop_bound_result [OF assms(2)] k obtain it where it: "r = Some it"
    by auto
  have "1 \<le> m"
  proof (rule ccontr)
    assume "\<not> 1 \<le> m"
    then have m0: "m = 0" by simp
    obtain k' where k': "nat (nb_non_linear_iter e) = Suc k'"
      using k by (cases "nat (nb_non_linear_iter e)") simp_all
    from assms(2) [unfolded k'] m0 show False
      by (auto simp add: ebind_def split: sum.splits if_splits
          dest: nonLinearLoop_bound)
  qed
  with b it assms(1,2) show ?thesis by (simp add: nonLinearStep_def)
qed

lemma nonLinearStep_zero_cap:
  assumes "nb_non_linear_iter e \<le> 0"
    and "step (replicate (nb_x_steps e) (0.5 * (bid + ask))) = Inr prev"
  shows "nonLinearStep step e bid ask nt None = Inl UnboundLocalError"
  using assms by (simp add: nonLinearStep_def)


section \<open>The Greeks\<close>

lemma finite_differences_surprime:
  assumes "finite_differences p pm pp p sb = Inr r"
  shows "snd (snd (snd r)) = 0"
  using assms
  by (auto simp add: finite_differences_def ebind_def Let_def split: sum.splits)

text \<open>
  A run of \<open>computeGreeks\<close> that returns: the Underlying is the one of the entry, the
  engine has solved three times for a single volatility (and the surprime is zero)
  and four times for a bid/ask volatility.
\<close>

lemma computeGreeks_returns:
  assumes "computeGreeks N e b (u, k) = (st, Inr r)"
  shows "fst st = u \<and>
         (\<not> isNonLinear u \<longrightarrow> snd st = k + 3 \<and> snd (snd (snd r)) = 0) \<and>
         (isNonLinear u \<longrightarrow> snd st = k + 4)"
  using assms
  unfolding computeGreeks_def rbind_def the_underlying_def call_solvePDE_def
    call_setter_def rreturn_def Let_def
  by (auto split: sum.splits prod.splits if_splits volatility.splits list.splits
      simp: setSpot_def setVol_def validateSpot_def getSpot_def isNonLinear_def getVol_def
      dest: finite_differences_surprime)

text \<open>The definitions that a run of \<open>computeGreeks\<close> on the fast path unfolds.\<close>

lemmas greeks_defs =
  computeGreeks_def rbind_def the_underlying_def call_solvePDE_def call_setter_def
  rreturn_def Let_def setSpot_def setVol_def validateSpot_def getSpot_def isNonLinear_def
  getVol_def solvePDE_def fast_path_def getNotional_def sc_binop_def
  finite_differences_def sc_div_def py_def barrier_def

lemma computeGreeks_expired_flat:
  "computeGreeks exact_library expired_call_engine (1 / 100) (flat_underlying, 0)
     = ((flat_underlying, 3), Inr (0, 50, 100, 0))"
  by (simp add: greeks_defs expired_call_engine_def flat_underlying_def)

lemma computeGreeks_expired_band:
  "computeGreeks exact_library expired_call_engine (1 / 100) (band_underlying 100, 0)
     = ((band_underlying 100, 4), Inr (0, 50, 100, 0))"
  by (simp add: greeks_defs expired_call_engine_def band_underlying_def)






section \<open>The meshes\<close>

lemma linspace_ends:
  assumes "linspace a b n = Inr m"
  shows "2 \<le> length (fst m) \<and> hd (fst m) = a \<and> last (fst m) = b"
proof -
  from assms have n: "2 \<le> n"
    by (auto simp add: linspace_def split: if_splits)
  then have ne: "[0..<n - 1] \<noteq> []" by simp
  from assms n
  have m: "m = (map (\<lambda>k. a + real k * ((b - a) / real (n - 1))) [0..<n - 1] @ [b],
                (b - a) / real (n - 1))"
    by (auto simp add: linspace_def Let_def)
  have "hd (fst m) = hd (map (\<lambda>k. a + real k * ((b - a) / real (n - 1))) [0..<n - 1])"
    using ne by (simp add: m)
  also have "\<dots> = a"
    using ne by (simp add: hd_map upt_rec [of 0])
  finally have h: "hd (fst m) = a" .
  from n show ?thesis using h by (simp add: m)
qed

lemma spot_mesh_ends:
  assumes "spot_mesh N p x_min x_max xm = Inr sm" and "2 \<le> length xm"
  shows "log_level N (fst (getContinousBarriers p)) = Some x_min \<Longrightarrow>
           hd sm = level_value (fst (getContinousBarriers p))"
    and "log_level N (snd (getContinousBarriers p)) = Some x_max \<Longrightarrow>
           last sm = level_value (snd (getContinousBarriers p))"
proof -
  define sm0 where "sm0 = map (np_exp N) xm"
  define sm1 where
    "sm1 = (if log_level N (fst (getContinousBarriers p)) = Some x_min
            then sm0[0 := level_value (fst (getContinousBarriers p))] else sm0)"
  have l0: "length sm0 = length xm" by (simp add: sm0_def)
  have l1: "length sm1 = length xm" by (simp add: sm1_def l0)
  have ne: "sm0 \<noteq> []" "sm1 \<noteq> []" using assms(2) l0 l1 by auto
  have xne: "xm \<noteq> []" using assms(2) by auto
  have s0: "py_set sm0 0 v = Inr (sm0[0 := v])" for v
    using py_set_nth [of 0 sm0 v] xne l0 by simp
  have s1: "py_set sm1 (- 1) v = Inr (sm1[length xm - 1 := v])" for v
    using py_set_neg [of 1 sm1 v] xne l1 by (simp add: Suc_leI)
  have first: "(if log_level N (fst (getContinousBarriers p)) = Some x_min
                then py_set sm0 0 (level_value (fst (getContinousBarriers p)))
                else Inr sm0) = Inr sm1"
    by (simp add: sm1_def s0)
  have sm: "sm = (if log_level N (snd (getContinousBarriers p)) = Some x_max
                  then sm1[length xm - 1 := level_value (snd (getContinousBarriers p))]
                  else sm1)"
    using assms(1) unfolding spot_mesh_def Let_def sm0_def [symmetric] first
    by (simp add: s1 split: if_splits)
  show "hd sm = level_value (fst (getContinousBarriers p))"
    if "log_level N (fst (getContinousBarriers p)) = Some x_min"
  proof -
    have "hd sm = sm ! 0" using ne l1 by (simp add: sm hd_conv_nth)
    also have "\<dots> = sm1 ! 0" using assms(2) by (simp add: sm)
    also have "\<dots> = level_value (fst (getContinousBarriers p))"
      using that ne by (simp add: sm1_def)
    finally show ?thesis .
  qed
  show "last sm = level_value (snd (getContinousBarriers p))"
    if "log_level N (snd (getContinousBarriers p)) = Some x_max"
  proof -
    have "last sm = sm ! (length xm - 1)" using ne l1 by (simp add: sm last_conv_nth)
    also have "\<dots> = level_value (snd (getContinousBarriers p))"
      using that assms(2) l1 by (simp add: sm)
    finally show ?thesis .
  qed
qed



end
